theory Spec2Isabelle
  imports Complex_Main
begin

section \<open>Investment tracker: price cache, position store and valuation\<close>

text \<open>
  The repository holds two editions of one portfolio tracker: a web edition
  (\<^verbatim>\<open>portfolio_tracker_3.py\<close>, class \<^verbatim>\<open>PortfolioManager\<close> behind Flask routes) and a
  desktop edition (\<^verbatim>\<open>portfolio_tracker_Tk_fails.py\<close>, class \<^verbatim>\<open>PortfolioTracker\<close> with a
  \<^verbatim>\<open>PositionDialog\<close>). Both keep a list of positions, a price cache with a timestamp per
  ticker, and compute cost, value and profit/loss from the cached or fetched price.

  Modelling decisions, all of them visible in the definitions below:
  \<^item> Python floats are the reals: arithmetic is exact, there is no rounding, infinity or
    NaN. Every statement below relates results computed by the same expressions as the
    code, so none depends on a rounding mode.
  \<^item> \<^verbatim>\<open>datetime.now()\<close> is an integer count of microseconds; a \<^verbatim>\<open>timedelta\<close> is their
    difference. The clock reading and the answer of the market-data provider at the moment
    of a call form a \<open>world\<close>, passed to every operation that reads them.
  \<^item> The provider (\<^verbatim>\<open>yfinance\<close>) answers a closing price, an empty history, or raises.
  \<^item> Mutation is state passing on the record \<open>manager\<close>. Two fields are traces of the
    external effects and have no counterpart among the Python attributes:
    \<open>provider_log\<close> lists the tickers sent to the provider, \<open>data_file\<close> lists the
    successive contents written to \<^verbatim>\<open>portfolio_data.json\<close>.
  \<^item> The lock of the web edition is not modelled: operations run one after another.
\<close>

subsection \<open>Time, provider, strings\<close>

type_synonym time = int

definition five_minutes :: time where
  "five_minutes = 5 * 60 * 1000000"

datatype provider_result = Close real | EmptyHistory | ProviderError

record world =
  clock :: time
  provider :: "string \<Rightarrow> provider_result"

text \<open>\<^verbatim>\<open>str.upper()\<close> and \<^verbatim>\<open>str.strip()\<close> on ASCII text.\<close>

definition upper_char :: "char \<Rightarrow> char" where
  "upper_char c =
     (let n = (of_char c :: nat) in
      if 97 \<le> n \<and> n \<le> 122
      then (case c of Char b0 b1 b2 b3 b4 b5 b6 b7 \<Rightarrow> Char b0 b1 b2 b3 b4 False b6 b7)
      else c)"

definition upper :: "string \<Rightarrow> string" where
  "upper s = map upper_char s"

definition is_space :: "char \<Rightarrow> bool" where
  "is_space c = ((of_char c :: nat) \<in> {9, 10, 11, 12, 13, 32})"

definition strip :: "string \<Rightarrow> string" where
  "strip s = rev (dropWhile is_space (rev (dropWhile is_space s)))"

text \<open>
  A numeric entry as it reaches \<^verbatim>\<open>float(...)\<close>: either something \<^verbatim>\<open>float\<close> converts, with
  the value it converts to, or something on which \<^verbatim>\<open>float\<close> raises.
\<close>

datatype num_field = FloatOk real | FloatRaises

datatype py_error = ValueError string

fun to_float :: "num_field \<Rightarrow> real option" where
  "to_float (FloatOk x) = Some x"
| "to_float FloatRaises = None"

subsection \<open>The manager state and the price cache\<close>

record 'p manager =
  portfolio :: "'p list"
  price_cache :: "string \<rightharpoonup> real"
  cache_timestamp :: "string \<rightharpoonup> time"
  provider_log :: "string list"
  data_file :: "'p list list"

text \<open>
  \<^verbatim>\<open>get_current_price\<close> is the same in both editions (the web edition wraps it in the lock
  and converts the close with \<^verbatim>\<open>float\<close>). The cache check is
  \<^verbatim>\<open>ticker in price_cache and ticker in cache_timestamp\<close> and then
  \<^verbatim>\<open>now - cache_timestamp[ticker] < timedelta(minutes=5)\<close>.
\<close>

definition cache_hit :: "time \<Rightarrow> string \<Rightarrow> 'p manager \<Rightarrow> real option" where
  "cache_hit now ticker s =
     (case price_cache s ticker of
        None \<Rightarrow> None
      | Some p \<Rightarrow>
          (case cache_timestamp s ticker of
             None \<Rightarrow> None
           | Some ts \<Rightarrow> if now - ts < five_minutes then Some p else None))"

definition get_current_price ::
  "world \<Rightarrow> string \<Rightarrow> 'p manager \<Rightarrow> real option \<times> 'p manager" where
  "get_current_price w ticker s =
     (let now = clock w in
      case cache_hit now ticker s of
        Some p \<Rightarrow> (Some p, s)
      | None \<Rightarrow>
          (let s1 = s\<lparr>provider_log := provider_log s @ [ticker]\<rparr> in
           case provider w ticker of
             Close current_price \<Rightarrow>
               (Some current_price,
                s1\<lparr>price_cache := (price_cache s1)(ticker \<mapsto> current_price),
                   cache_timestamp := (cache_timestamp s1)(ticker \<mapsto> now)\<rparr>)
           | EmptyHistory \<Rightarrow> (None, s1)
           | ProviderError \<Rightarrow> (None, s1)))"

definition refresh_all_prices :: "'p manager \<Rightarrow> 'p manager" where
  "refresh_all_prices s = s\<lparr>price_cache := Map.empty, cache_timestamp := Map.empty\<rparr>"

definition save_data :: "'p manager \<Rightarrow> 'p manager" where
  "save_data s = s\<lparr>data_file := data_file s @ [portfolio s]\<rparr>"

subsection \<open>Web edition: positions and the store operations\<close>

record position =
  pos_id :: int
  description :: string
  ticker :: string
  quantity :: real
  purchase_price :: real
  fees :: real
  date_added :: time

text \<open>
  The JSON body of a POST or PUT request. The three numbers go through \<^verbatim>\<open>float(...)\<close>,
  which raises on text that is no number and on \<^verbatim>\<open>null\<close>; the Flask route catches the
  exception and answers \<^verbatim>\<open>success: false\<close>.
\<close>

record position_data =
  pd_description :: string
  pd_ticker :: string
  pd_quantity :: num_field
  pd_purchase_price :: num_field
  pd_fees :: num_field

type_synonym result = "py_error + (bool \<times> string)"

definition quoted :: "string \<Rightarrow> string" where
  "quoted t = [CHR 0x27] @ t @ [CHR 0x27]"

definition could_not_fetch :: "string \<Rightarrow> string" where
  "could_not_fetch t = ''Could not fetch data for ticker '' @ quoted t"

definition float_error :: py_error where
  "float_error = ValueError ''could not convert to float''"

text \<open>
  \<^verbatim>\<open>add_position\<close>: the price of the upper-cased ticker is fetched first; the new
  position gets the id \<^verbatim>\<open>len(self.portfolio) + 1\<close> and a second clock reading \<open>stamp\<close> as
  \<^verbatim>\<open>date_added\<close>. The dictionary is built (and \<^verbatim>\<open>float\<close> may raise) before the append.
\<close>

definition add_position ::
  "world \<Rightarrow> time \<Rightarrow> position_data \<Rightarrow> position manager \<Rightarrow> result \<times> position manager" where
  "add_position w stamp pd s =
     (case get_current_price w (upper (pd_ticker pd)) s of
        (None, s1) \<Rightarrow> (Inr (False, could_not_fetch (pd_ticker pd)), s1)
      | (Some current_price, s1) \<Rightarrow>
          (case (to_float (pd_quantity pd), to_float (pd_purchase_price pd),
                 to_float (pd_fees pd)) of
             (Some q, Some pp, Some f) \<Rightarrow>
               (let position =
                      \<lparr>pos_id = int (length (portfolio s1)) + 1,
                       description = pd_description pd,
                       ticker = upper (pd_ticker pd),
                       quantity = q,
                       purchase_price = pp,
                       fees = f,
                       date_added = stamp\<rparr>;
                    s2 = s1\<lparr>portfolio := portfolio s1 @ [position]\<rparr>
                in (Inr (True, ''Position added successfully''), save_data s2))
           | _ \<Rightarrow> (Inl float_error, s1)))"

text \<open>
  \<^verbatim>\<open>edit_position\<close>: the loop \<^verbatim>\<open>for i, position in enumerate(self.portfolio)\<close> returns at
  the first position whose id matches. The ticker is validated only
  \<^verbatim>\<open>if new_ticker != position['ticker']\<close> (source comment: "Validate ticker if changed").
  \<^verbatim>\<open>position.update({...})\<close> replaces five keys of the stored dictionary in place.
\<close>

definition edit_body ::
  "world \<Rightarrow> position_data \<Rightarrow> nat \<Rightarrow> position \<Rightarrow> position manager
     \<Rightarrow> result \<times> position manager" where
  "edit_body w pd i position s =
     (let new_ticker = upper (pd_ticker pd);
          (validated, s1) =
            (if new_ticker \<noteq> ticker position
             then (case get_current_price w new_ticker s of
                     (None, s') \<Rightarrow> (False, s')
                   | (Some current_price, s') \<Rightarrow> (True, s'))
             else (True, s))
      in if \<not> validated then (Inr (False, could_not_fetch new_ticker), s1)
         else
           (case (to_float (pd_quantity pd), to_float (pd_purchase_price pd),
                  to_float (pd_fees pd)) of
              (Some q, Some pp, Some f) \<Rightarrow>
                (let position' =
                       position\<lparr>description := pd_description pd,
                                ticker := new_ticker,
                                quantity := q,
                                purchase_price := pp,
                                fees := f\<rparr>;
                     s2 = s1\<lparr>portfolio := (portfolio s1)[i := position']\<rparr>
                 in (Inr (True, ''Position updated successfully''), save_data s2))
            | _ \<Rightarrow> (Inl float_error, s1)))"

fun edit_loop ::
  "world \<Rightarrow> int \<Rightarrow> position_data \<Rightarrow> nat \<Rightarrow> position list \<Rightarrow> position manager
     \<Rightarrow> result \<times> position manager" where
  "edit_loop w position_id pd i [] s = (Inr (False, ''Position not found''), s)"
| "edit_loop w position_id pd i (position # rest) s =
     (if pos_id position = position_id then edit_body w pd i position s
      else edit_loop w position_id pd (Suc i) rest s)"

definition edit_position ::
  "world \<Rightarrow> int \<Rightarrow> position_data \<Rightarrow> position manager \<Rightarrow> result \<times> position manager" where
  "edit_position w position_id pd s = edit_loop w position_id pd 0 (portfolio s) s"

subsection \<open>Web edition: valuation and export\<close>

record row =
  row_id :: int
  row_description :: string
  row_ticker :: string
  row_quantity :: real
  row_purchase_price :: real
  row_total_cost :: real
  row_fees :: real
  row_current_price :: "real option"
  row_current_value :: "real option"
  row_pl :: "real option"
  row_pl_percent :: "real option"
  row_date_added :: time

record summary =
  total_investment :: real
  total_current_value :: real
  total_pl :: real
  total_pl_percent :: real

text \<open>
  The dictionary appended to \<^verbatim>\<open>portfolio_data\<close> for one position, given what
  \<^verbatim>\<open>get_current_price\<close> returned for its ticker (the body of the loop of
  \<^verbatim>\<open>get_portfolio_data\<close>, lines 108 to 139).
\<close>

definition position_row :: "position \<Rightarrow> real option \<Rightarrow> row" where
  "position_row position current_price =
     (let total_cost = quantity position * purchase_price position + fees position;
          (current_value, pl, pl_percent) =
            (case current_price of
               Some cp \<Rightarrow>
                 (let current_value = quantity position * cp;
                      pl = current_value - total_cost;
                      pl_percent = (if total_cost > 0 then (pl / total_cost) * 100 else 0)
                  in (Some current_value, Some pl, Some pl_percent))
             | None \<Rightarrow> (None, None, None))
      in \<lparr>row_id = pos_id position,
          row_description = description position,
          row_ticker = ticker position,
          row_quantity = quantity position,
          row_purchase_price = purchase_price position,
          row_total_cost = total_cost,
          row_fees = fees position,
          row_current_price = current_price,
          row_current_value = current_value,
          row_pl = pl,
          row_pl_percent = pl_percent,
          row_date_added = date_added position\<rparr>)"

text \<open>
  The loop of \<^verbatim>\<open>get_portfolio_data\<close>. Every iteration reads the clock and may query the
  provider, so iteration \<open>i\<close> runs in the world \<open>env i\<close>.
\<close>

fun portfolio_loop ::
  "(nat \<Rightarrow> world) \<Rightarrow> nat \<Rightarrow> position list \<Rightarrow> row list \<Rightarrow> real \<Rightarrow> real \<Rightarrow> position manager
     \<Rightarrow> (row list \<times> real \<times> real) \<times> position manager" where
  "portfolio_loop env i [] portfolio_data acc_investment acc_current_value s =
     ((portfolio_data, acc_investment, acc_current_value), s)"
| "portfolio_loop env i (position # rest) portfolio_data acc_investment acc_current_value s =
     (let total_cost = quantity position * purchase_price position + fees position;
          acc_investment' = acc_investment + total_cost;
          (current_price, s') = get_current_price (env i) (ticker position) s;
          acc_current_value' =
            (case current_price of
               Some cp \<Rightarrow> acc_current_value + quantity position * cp
             | None \<Rightarrow> acc_current_value)
      in portfolio_loop env (Suc i) rest
           (portfolio_data @ [position_row position current_price])
           acc_investment' acc_current_value' s')"

definition get_portfolio_data ::
  "(nat \<Rightarrow> world) \<Rightarrow> position manager \<Rightarrow> (row list \<times> summary) \<times> position manager" where
  "get_portfolio_data env s =
     (case portfolio_loop env 0 (portfolio s) [] 0 0 s of
        ((portfolio_data, acc_investment, acc_current_value), s') \<Rightarrow>
          (let pl_total =
                 (if acc_current_value > 0 then acc_current_value - acc_investment else 0);
               pl_total_percent =
                 (if acc_investment > 0 then (pl_total / acc_investment) * 100 else 0)
           in ((portfolio_data,
                \<lparr>total_investment = acc_investment,
                 total_current_value = acc_current_value,
                 total_pl = pl_total,
                 total_pl_percent = pl_total_percent\<rparr>), s')))"

text \<open>
  A cell of the CSV. \<open>Percent x\<close> stands for the text \<^verbatim>\<open>f"{x:.2f}%"\<close>, \<open>Stamp t\<close> for the
  ISO text of \<open>t\<close>. \<open>value_or_na\<close> is the Python \<^verbatim>\<open>v if v else 'N/A'\<close>, where \<^verbatim>\<open>v\<close> is
  \<^verbatim>\<open>None\<close> or a float: both \<^verbatim>\<open>None\<close> and \<^verbatim>\<open>0.0\<close> are falsy.
\<close>

datatype cell = Text string | Number real | Percent real | Stamp time

definition value_or_na :: "(real \<Rightarrow> cell) \<Rightarrow> real option \<Rightarrow> cell" where
  "value_or_na shown v =
     (case v of
        None \<Rightarrow> Text ''N/A''
      | Some x \<Rightarrow> if x \<noteq> 0 then shown x else Text ''N/A'')"

definition csv_header :: "cell list" where
  "csv_header =
     [Text ''Description'', Text ''Ticker'', Text ''Quantity'', Text ''Purchase Price'',
      Text ''Total Cost'', Text ''Fees'', Text ''Current Price'', Text ''Current Value'',
      Text ''P&L'', Text ''P&L %'', Text ''Date Added'']"

definition export_row :: "row \<Rightarrow> cell list" where
  "export_row position =
     [Text (row_description position),
      Text (row_ticker position),
      Number (row_quantity position),
      Number (row_purchase_price position),
      Number (row_total_cost position),
      Number (row_fees position),
      value_or_na Number (row_current_price position),
      value_or_na Number (row_current_value position),
      value_or_na Number (row_pl position),
      value_or_na Percent (row_pl_percent position),
      Stamp (row_date_added position)]"

definition export_data ::
  "(nat \<Rightarrow> world) \<Rightarrow> position manager \<Rightarrow> cell list list \<times> position manager" where
  "export_data env s =
     (case get_portfolio_data env s of
        ((portfolio_data, totals), s') \<Rightarrow> (csv_header # map export_row portfolio_data, s'))"

subsection \<open>Desktop edition: dialog, store operations, display and export\<close>

record tk_position =
  tk_description :: string
  tk_ticker :: string
  tk_quantity :: real
  tk_purchase_price :: real
  tk_fees :: real
  tk_date_added :: "time option"

text \<open>
  The entries of \<^verbatim>\<open>PositionDialog\<close> when OK is clicked. The three numeric entries are text
  that \<^verbatim>\<open>float\<close> converts or rejects.
\<close>

record dialog_form =
  form_description :: string
  form_ticker :: string
  form_quantity :: num_field
  form_price :: num_field
  form_fees :: num_field

record dialog_result =
  dr_description :: string
  dr_ticker :: string
  dr_quantity :: real
  dr_purchase_price :: real
  dr_fees :: real

text \<open>
  \<^verbatim>\<open>PositionDialog.ok_clicked\<close>: the three conversions come first, then the five checks in
  the order of the source. A \<^verbatim>\<open>ValueError\<close> shows a message box and leaves
  \<^verbatim>\<open>self.result\<close> at \<^verbatim>\<open>None\<close>.
\<close>

definition ok_clicked :: "dialog_form \<Rightarrow> py_error + dialog_result" where
  "ok_clicked form =
     (let desc = strip (form_description form);
          tick = upper (strip (form_ticker form))
      in case to_float (form_quantity form) of
           None \<Rightarrow> Inl float_error
         | Some q \<Rightarrow>
             (case to_float (form_price form) of
                None \<Rightarrow> Inl float_error
              | Some pp \<Rightarrow>
                  (case to_float (form_fees form) of
                     None \<Rightarrow> Inl float_error
                   | Some f \<Rightarrow>
                       if desc = [] then Inl (ValueError ''Description is required'')
                       else if tick = [] then Inl (ValueError ''Ticker symbol is required'')
                       else if q \<le> 0 then Inl (ValueError ''Quantity must be positive'')
                       else if pp \<le> 0 then Inl (ValueError ''Purchase price must be positive'')
                       else if f < 0 then Inl (ValueError ''Fees cannot be negative'')
                       else Inr \<lparr>dr_description = desc,
                                 dr_ticker = tick,
                                 dr_quantity = q,
                                 dr_purchase_price = pp,
                                 dr_fees = f\<rparr>)))"

text \<open>
  \<^verbatim>\<open>dialog.result\<close> once the dialog has closed: \<open>None\<close> after Cancel, the dictionary
  built by \<^verbatim>\<open>ok_clicked\<close> after an OK that passed every check.
\<close>

definition dialog_closed :: "dialog_form option \<Rightarrow> dialog_result option" where
  "dialog_closed attempt =
     (case attempt of
        None \<Rightarrow> None
      | Some form \<Rightarrow> (case ok_clicked form of Inl e \<Rightarrow> None | Inr r \<Rightarrow> Some r))"

record tk_row =
  tr_description :: string
  tr_ticker :: string
  tr_quantity :: real
  tr_purchase_price :: real
  tr_total_cost :: real
  tr_fees :: real
  tr_current_price :: "real option"
  tr_current_value :: "real option"
  tr_pl :: "real option"
  tr_pl_percent :: "real option"

record tk_view =
  tk_rows :: "tk_row list"
  tk_total_investment :: real
  tk_total_current_value :: real
  tk_total_pl :: real
  tk_total_pl_percent :: real

text \<open>
  \<^verbatim>\<open>update_display\<close>: the numbers behind the formatted cells of the tree and of the
  summary labels; \<open>None\<close> is shown as \<^verbatim>\<open>"N/A"\<close>.
\<close>

definition tk_position_row :: "tk_position \<Rightarrow> real option \<Rightarrow> tk_row" where
  "tk_position_row position current_price =
     (let total_cost = tk_quantity position * tk_purchase_price position + tk_fees position;
          (current_value, pl, pl_percent) =
            (case current_price of
               Some cp \<Rightarrow>
                 (let current_value = tk_quantity position * cp;
                      pl = current_value - total_cost;
                      pl_percent = (if total_cost > 0 then (pl / total_cost) * 100 else 0)
                  in (Some current_value, Some pl, Some pl_percent))
             | None \<Rightarrow> (None, None, None))
      in \<lparr>tr_description = tk_description position,
          tr_ticker = tk_ticker position,
          tr_quantity = tk_quantity position,
          tr_purchase_price = tk_purchase_price position,
          tr_total_cost = total_cost,
          tr_fees = tk_fees position,
          tr_current_price = current_price,
          tr_current_value = current_value,
          tr_pl = pl,
          tr_pl_percent = pl_percent\<rparr>)"

fun display_loop ::
  "(nat \<Rightarrow> world) \<Rightarrow> nat \<Rightarrow> tk_position list \<Rightarrow> tk_row list \<Rightarrow> real \<Rightarrow> real
     \<Rightarrow> tk_position manager \<Rightarrow> (tk_row list \<times> real \<times> real) \<times> tk_position manager" where
  "display_loop env i [] tree acc_investment acc_current_value s =
     ((tree, acc_investment, acc_current_value), s)"
| "display_loop env i (position # rest) tree acc_investment acc_current_value s =
     (let total_cost = tk_quantity position * tk_purchase_price position + tk_fees position;
          acc_investment' = acc_investment + total_cost;
          (current_price, s') = get_current_price (env i) (tk_ticker position) s;
          acc_current_value' =
            (case current_price of
               Some cp \<Rightarrow> acc_current_value + tk_quantity position * cp
             | None \<Rightarrow> acc_current_value)
      in display_loop env (Suc i) rest (tree @ [tk_position_row position current_price])
           acc_investment' acc_current_value' s')"

definition update_display ::
  "(nat \<Rightarrow> world) \<Rightarrow> tk_position manager \<Rightarrow> tk_view \<times> tk_position manager" where
  "update_display env s =
     (case display_loop env 0 (portfolio s) [] 0 0 s of
        ((tree, acc_investment, acc_current_value), s') \<Rightarrow>
          (let pl_total = acc_current_value - acc_investment;
               pl_total_percent =
                 (if acc_investment > 0 then (pl_total / acc_investment) * 100 else 0)
           in (\<lparr>tk_rows = tree,
                tk_total_investment = acc_investment,
                tk_total_current_value = acc_current_value,
                tk_total_pl = pl_total,
                tk_total_pl_percent = pl_total_percent\<rparr>, s')))"

datatype tk_outcome =
  NoAction | ShowWarning string | ShowError string | Status string | RaisedIndexError

definition could_not_fetch_verify :: "string \<Rightarrow> string" where
  "could_not_fetch_verify t = could_not_fetch t @ ''. Please verify the ticker symbol.''"

definition from_dialog :: "dialog_result \<Rightarrow> string \<Rightarrow> time option \<Rightarrow> tk_position" where
  "from_dialog r tick added =
     \<lparr>tk_description = dr_description r,
      tk_ticker = tick,
      tk_quantity = dr_quantity r,
      tk_purchase_price = dr_purchase_price r,
      tk_fees = dr_fees r,
      tk_date_added = added\<rparr>"

text \<open>
  \<^verbatim>\<open>PortfolioTracker.add_position\<close>: \<open>attempt\<close> is what the dialog held when it closed,
  \<open>w\<close> the world of the validating price fetch, \<open>stamp\<close> the clock reading stored as
  \<^verbatim>\<open>date_added\<close>, \<open>env\<close> the worlds of the display refresh that follows.
\<close>

definition tk_add_position ::
  "world \<Rightarrow> time \<Rightarrow> (nat \<Rightarrow> world) \<Rightarrow> dialog_form option \<Rightarrow> tk_position manager
     \<Rightarrow> tk_outcome \<times> tk_position manager" where
  "tk_add_position w stamp env attempt s =
     (case dialog_closed attempt of
        None \<Rightarrow> (NoAction, s)
      | Some r \<Rightarrow>
          (let tick = upper (dr_ticker r) in
           case get_current_price w tick s of
             (None, s1) \<Rightarrow> (ShowError (could_not_fetch_verify tick), s1)
           | (Some current_price, s1) \<Rightarrow>
               (let position = from_dialog r tick (Some stamp);
                    s2 = save_data (s1\<lparr>portfolio := portfolio s1 @ [position]\<rparr>);
                    s3 = snd (update_display env s2)
                in (Status (''Added position: '' @ tick), s3))))"

text \<open>
  \<^verbatim>\<open>PortfolioTracker.edit_position\<close>: \<open>selected\<close> is the index of the selected tree item.
  The price of the submitted ticker is fetched whether or not the ticker changed.
\<close>

definition tk_edit_position ::
  "world \<Rightarrow> time \<Rightarrow> (nat \<Rightarrow> world) \<Rightarrow> nat option \<Rightarrow> dialog_form option \<Rightarrow> tk_position manager
     \<Rightarrow> tk_outcome \<times> tk_position manager" where
  "tk_edit_position w stamp env selected attempt s =
     (case selected of
        None \<Rightarrow> (ShowWarning ''Please select a position to edit.'', s)
      | Some index \<Rightarrow>
          if index \<ge> length (portfolio s) then (RaisedIndexError, s)
          else
            (let position = portfolio s ! index in
             case dialog_closed attempt of
               None \<Rightarrow> (NoAction, s)
             | Some r \<Rightarrow>
                 (let tick = upper (dr_ticker r) in
                  case get_current_price w tick s of
                    (None, s1) \<Rightarrow> (ShowError (could_not_fetch_verify tick), s1)
                  | (Some current_price, s1) \<Rightarrow>
                      (let added =
                             (case tk_date_added position of Some d \<Rightarrow> d | None \<Rightarrow> stamp);
                           position' = from_dialog r tick (Some added);
                           s2 = save_data (s1\<lparr>portfolio := (portfolio s1)[index := position']\<rparr>);
                           s3 = snd (update_display env s2)
                       in (Status (''Updated position: '' @ tick), s3)))))"

text \<open>
  \<^verbatim>\<open>PortfolioTracker.export_data\<close>: the test is \<^verbatim>\<open>if current_price:\<close>, so a price of
  \<^verbatim>\<open>None\<close> and a price of \<^verbatim>\<open>0.0\<close> both give four \<^verbatim>\<open>"N/A"\<close> cells.
\<close>

definition tk_csv_header :: "cell list" where
  "tk_csv_header =
     [Text ''Description'', Text ''Ticker'', Text ''Quantity'', Text ''Purchase Price'',
      Text ''Total Cost'', Text ''Fees'', Text ''Current Price'', Text ''Current Value'',
      Text ''P&L'', Text ''P&L %'']"

definition tk_export_row :: "tk_position \<Rightarrow> real option \<Rightarrow> cell list" where
  "tk_export_row position current_price =
     (let total_cost = tk_quantity position * tk_purchase_price position + tk_fees position;
          priced =
            (case current_price of
               None \<Rightarrow> None
             | Some cp \<Rightarrow> if cp \<noteq> 0 then Some cp else None)
      in [Text (tk_description position),
          Text (tk_ticker position),
          Number (tk_quantity position),
          Number (tk_purchase_price position),
          Number total_cost,
          Number (tk_fees position)] @
         (case priced of
            Some cp \<Rightarrow>
              (let current_value = tk_quantity position * cp;
                   pl = current_value - total_cost;
                   pl_percent = (if total_cost > 0 then (pl / total_cost) * 100 else 0)
               in [Number cp, Number current_value, Number pl, Number pl_percent])
          | None \<Rightarrow> [Text ''N/A'', Text ''N/A'', Text ''N/A'', Text ''N/A'']))"

fun tk_export_loop ::
  "(nat \<Rightarrow> world) \<Rightarrow> nat \<Rightarrow> tk_position list \<Rightarrow> cell list list \<Rightarrow> tk_position manager
     \<Rightarrow> cell list list \<times> tk_position manager" where
  "tk_export_loop env i [] written s = (written, s)"
| "tk_export_loop env i (position # rest) written s =
     (case get_current_price (env i) (tk_ticker position) s of
        (current_price, s') \<Rightarrow>
          tk_export_loop env (Suc i) rest (written @ [tk_export_row position current_price]) s')"

definition tk_export_data ::
  "(nat \<Rightarrow> world) \<Rightarrow> tk_position manager \<Rightarrow> cell list list \<times> tk_position manager" where
  "tk_export_data env s = tk_export_loop env 0 (portfolio s) [tk_csv_header] s"

text \<open>
  The prices that the successive calls of \<^verbatim>\<open>get_current_price\<close> return when a loop asks
  for the tickers \<open>ts\<close> in order, iteration \<open>i\<close> first. It names, for each position of a
  loop, whether its price resolved.
\<close>

fun price_results :: "(nat \<Rightarrow> world) \<Rightarrow> nat \<Rightarrow> string list \<Rightarrow> 'p manager \<Rightarrow> real option list" where
  "price_results env i [] s = []"
| "price_results env i (t # ts) s =
     (case get_current_price (env i) t s of
        (current_price, s') \<Rightarrow> current_price # price_results env (Suc i) ts s')"

subsection \<open>Inputs used in the examples\<close>

definition empty_manager :: "'p manager" where
  "empty_manager =
     \<lparr>portfolio = [], price_cache = Map.empty, cache_timestamp = Map.empty,
      provider_log = [], data_file = []\<rparr>"

definition market_down :: world where
  "market_down = \<lparr>clock = 0, provider = (\<lambda>t. ProviderError)\<rparr>"

definition market_at :: "time \<Rightarrow> real \<Rightarrow> world" where
  "market_at now c = \<lparr>clock = now, provider = (\<lambda>t. Close c)\<rparr>"

definition cached_manager :: "position manager" where
  "cached_manager =
     empty_manager\<lparr>price_cache := [''AAPL'' \<mapsto> 150], cache_timestamp := [''AAPL'' \<mapsto> 1000]\<rparr>"

definition request_unknown :: position_data where
  "request_unknown =
     \<lparr>pd_description = ''Nothing'', pd_ticker = ''zzzz'', pd_quantity = FloatOk 1,
      pd_purchase_price = FloatOk 10, pd_fees = FloatOk 0\<rparr>"

definition form_unknown :: dialog_form where
  "form_unknown =
     \<lparr>form_description = '' Nothing '', form_ticker = ''zzzz'', form_quantity = FloatOk 1,
      form_price = FloatOk 10, form_fees = FloatOk 0\<rparr>"

definition acme :: position where
  "acme =
     \<lparr>pos_id = 1, description = ''Acme'', ticker = ''ACME'', quantity = 1,
      purchase_price = 100, fees = 10, date_added = 0\<rparr>"

definition bolt :: position where
  "bolt =
     \<lparr>pos_id = 2, description = ''Bolt'', ticker = ''BOLT'', quantity = 3,
      purchase_price = 20, fees = 0, date_added = 0\<rparr>"

definition two_positions :: "position manager" where
  "two_positions = empty_manager\<lparr>portfolio := [acme, bolt]\<rparr>"

definition request_more_acme :: position_data where
  "request_more_acme =
     \<lparr>pd_description = ''Acme'', pd_ticker = ''acme'', pd_quantity = FloatOk 2,
      pd_purchase_price = FloatOk 100, pd_fees = FloatOk 10\<rparr>"

definition tk_acme :: tk_position where
  "tk_acme =
     \<lparr>tk_description = ''Acme'', tk_ticker = ''ACME'', tk_quantity = 1,
      tk_purchase_price = 100, tk_fees = 10, tk_date_added = Some 0\<rparr>"

definition tk_one_position :: "tk_position manager" where
  "tk_one_position = empty_manager\<lparr>portfolio := [tk_acme]\<rparr>"

definition request_more_bolt :: position_data where
  "request_more_bolt =
     \<lparr>pd_description = ''Bolt Inc'', pd_ticker = ''bolt'', pd_quantity = FloatOk 4,
      pd_purchase_price = FloatOk 20, pd_fees = FloatOk 1\<rparr>"

definition short_fee :: position where
  "short_fee =
     \<lparr>pos_id = 1, description = ''Rebate'', ticker = ''RBT'', quantity = 1,
      purchase_price = 1, fees = - 3, date_added = 0\<rparr>"

definition flat :: position where
  "flat =
     \<lparr>pos_id = 1, description = ''Flat'', ticker = ''FLAT'', quantity = 1,
      purchase_price = 10, fees = 0, date_added = 0\<rparr>"

definition request_out_of_range :: position_data where
  "request_out_of_range =
     \<lparr>pd_description = ''Odd'', pd_ticker = ''odd'', pd_quantity = FloatOk (- 5),
      pd_purchase_price = FloatOk 0, pd_fees = FloatOk (- 1)\<rparr>"

definition market_only_acme :: world where
  "market_only_acme =
     \<lparr>clock = 0, provider = (\<lambda>t. if t = ''ACME'' then Close 120 else EmptyHistory)\<rparr>"

section \<open>Properties\<close>

subsection \<open>The price cache\<close>

lemma upper_example: "upper ''aapl'' = ''AAPL''"
  by (simp add: upper_def upper_char_def)

lemma cache_hit_log [simp]:
  "cache_hit now tkr (s\<lparr>provider_log := l\<rparr>) = cache_hit now tkr s"
  by (simp add: cache_hit_def split: option.splits)

lemma cache_hit_stays_none:
  "cache_hit now tkr s = None \<Longrightarrow> now \<le> now' \<Longrightarrow> cache_hit now' tkr s = None"
  by (auto simp: cache_hit_def split: option.splits if_splits)

lemma get_current_price_hit:
  "cache_hit (clock w) tkr s = Some p \<Longrightarrow> get_current_price w tkr s = (Some p, s)"
  by (simp add: get_current_price_def)

lemma get_current_price_miss:
  "cache_hit (clock w) tkr s = None \<Longrightarrow>
   get_current_price w tkr s =
     (case provider w tkr of
        Close c \<Rightarrow> (Some c, s\<lparr>provider_log := provider_log s @ [tkr],
                               price_cache := (price_cache s)(tkr \<mapsto> c),
                               cache_timestamp := (cache_timestamp s)(tkr \<mapsto> clock w)\<rparr>)
      | EmptyHistory \<Rightarrow> (None, s\<lparr>provider_log := provider_log s @ [tkr]\<rparr>)
      | ProviderError \<Rightarrow> (None, s\<lparr>provider_log := provider_log s @ [tkr]\<rparr>))"
  by (simp add: get_current_price_def Let_def split: provider_result.splits)

lemma get_current_price_portfolio [simp]:
  "portfolio (snd (get_current_price w tkr s)) = portfolio s"
  by (simp add: get_current_price_def Let_def split: option.splits provider_result.splits)

lemma get_current_price_data_file [simp]:
  "data_file (snd (get_current_price w tkr s)) = data_file s"
  by (simp add: get_current_price_def Let_def split: option.splits provider_result.splits)

lemma get_current_price_None:
  "fst (get_current_price w tkr s) = None \<Longrightarrow>
   snd (get_current_price w tkr s) = s\<lparr>provider_log := provider_log s @ [tkr]\<rparr>"
  by (auto simp: get_current_price_def Let_def split: option.splits provider_result.splits)

text \<open>
  Claim C5. When a call of \<open>get_current_price\<close> reaches the provider (the cache holds no
  entry for the ticker younger than five minutes) and the provider raises or answers an
  empty history, the call returns \<open>None\<close> and leaves the price cache and the timestamps as
  they were; the only trace is the query itself. A next call for the same ticker, at the
  same or a later clock reading, therefore queries the provider again: after it the log
  holds two queries for the ticker.
\<close>

theorem failed_fetch_not_cached:
  assumes miss: "cache_hit (clock w) tkr s = None"
    and fails: "provider w tkr = ProviderError \<or> provider w tkr = EmptyHistory"
  shows "fst (get_current_price w tkr s) = None
       \<and> price_cache (snd (get_current_price w tkr s)) = price_cache s
       \<and> cache_timestamp (snd (get_current_price w tkr s)) = cache_timestamp s
       \<and> provider_log (snd (get_current_price w tkr s)) = provider_log s @ [tkr]
       \<and> (clock w \<le> clock w' \<longrightarrow>
            provider_log (snd (get_current_price w' tkr (snd (get_current_price w tkr s))))
              = provider_log s @ [tkr, tkr])"
proof -
  let ?s1 = "s\<lparr>provider_log := provider_log s @ [tkr]\<rparr>"
  from fails have step: "get_current_price w tkr s = (None, ?s1)"
    by (auto simp: get_current_price_miss [OF miss])
  have again: "provider_log (snd (get_current_price w' tkr ?s1)) = provider_log s @ [tkr, tkr]"
    if later: "clock w \<le> clock w'"
  proof -
    have "cache_hit (clock w') tkr s = None"
      using miss later by (rule cache_hit_stays_none)
    then have "cache_hit (clock w') tkr ?s1 = None"
      by simp
    then show ?thesis
      by (simp add: get_current_price_miss split: provider_result.splits)
  qed
  show ?thesis
    using again by (simp add: step)
qed

theorem failed_fetch_not_cached_witness:
  "fst (get_current_price market_down ''AAPL'' (empty_manager :: position manager)) = None
   \<and> provider_log (snd (get_current_price (market_down\<lparr>clock := 7\<rparr>) ''AAPL''
        (snd (get_current_price market_down ''AAPL'' (empty_manager :: position manager)))))
      = [''AAPL'', ''AAPL'']"
proof -
  have miss: "cache_hit (clock market_down) ''AAPL'' (empty_manager :: position manager) = None"
    by (simp add: cache_hit_def empty_manager_def)
  have fails:
    "provider market_down ''AAPL'' = ProviderError \<or> provider market_down ''AAPL'' = EmptyHistory"
    by (simp add: market_down_def)
  have later: "clock market_down \<le> clock (market_down\<lparr>clock := 7\<rparr>)"
    by (simp add: market_down_def)
  from failed_fetch_not_cached [OF miss fails, of "market_down\<lparr>clock := 7\<rparr>"] later
  show ?thesis by (simp add: empty_manager_def)
qed

lemma cache_hit_after_store:
  "now' - now < five_minutes \<Longrightarrow>
   cache_hit now' tkr (s\<lparr>provider_log := l, price_cache := (price_cache s)(tkr \<mapsto> c),
                          cache_timestamp := (cache_timestamp s)(tkr \<mapsto> now)\<rparr>) = Some c"
  by (simp add: cache_hit_def)

text \<open>
  Claim C6. A cache entry for the ticker stored less than five minutes before the clock
  reading of the call is served as it is: \<open>get_current_price\<close> returns the cached price
  and the whole state is unchanged, the log of provider queries included, so no query is
  made. Hence, when a first call fetches the price \<open>q\<close> from the provider and a second call
  for the same ticker comes less than five minutes later, both return \<open>q\<close>, the second
  changes nothing, and the two calls together made exactly one query.
\<close>

theorem fresh_entry_served_from_cache:
  "(price_cache s tkr = Some p \<and> cache_timestamp s tkr = Some ts \<and> clock w - ts < five_minutes
      \<longrightarrow> get_current_price w tkr s = (Some p, s))
   \<and> (cache_hit (clock w1) tkr s0 = None \<and> provider w1 tkr = Close q
        \<and> clock w2 - clock w1 < five_minutes
      \<longrightarrow> fst (get_current_price w1 tkr s0) = Some q
        \<and> fst (get_current_price w2 tkr (snd (get_current_price w1 tkr s0))) = Some q
        \<and> snd (get_current_price w2 tkr (snd (get_current_price w1 tkr s0)))
            = snd (get_current_price w1 tkr s0)
        \<and> provider_log (snd (get_current_price w2 tkr (snd (get_current_price w1 tkr s0))))
            = provider_log s0 @ [tkr])"
proof (intro conjI impI)
  assume "price_cache s tkr = Some p \<and> cache_timestamp s tkr = Some ts \<and> clock w - ts < five_minutes"
  then have "cache_hit (clock w) tkr s = Some p"
    by (simp add: cache_hit_def)
  then show "get_current_price w tkr s = (Some p, s)"
    by (rule get_current_price_hit)
next
  assume h: "cache_hit (clock w1) tkr s0 = None \<and> provider w1 tkr = Close q
        \<and> clock w2 - clock w1 < five_minutes"
  let ?s1 = "s0\<lparr>provider_log := provider_log s0 @ [tkr],
               price_cache := (price_cache s0)(tkr \<mapsto> q),
               cache_timestamp := (cache_timestamp s0)(tkr \<mapsto> clock w1)\<rparr>"
  from h have first: "get_current_price w1 tkr s0 = (Some q, ?s1)"
    by (simp add: get_current_price_miss)
  from h have "cache_hit (clock w2) tkr ?s1 = Some q"
    by (simp add: cache_hit_after_store)
  then have second: "get_current_price w2 tkr ?s1 = (Some q, ?s1)"
    by (rule get_current_price_hit)
  show "fst (get_current_price w1 tkr s0) = Some q"
    by (simp add: first)
  show "fst (get_current_price w2 tkr (snd (get_current_price w1 tkr s0))) = Some q"
    by (simp add: first second)
  show "snd (get_current_price w2 tkr (snd (get_current_price w1 tkr s0)))
            = snd (get_current_price w1 tkr s0)"
    by (simp add: first second)
  show "provider_log (snd (get_current_price w2 tkr (snd (get_current_price w1 tkr s0))))
            = provider_log s0 @ [tkr]"
    by (simp add: first second)
qed

theorem fresh_entry_served_from_cache_witness:
  "get_current_price (market_at 2000 175) ''AAPL'' cached_manager = (Some 150, cached_manager)
   \<and> fst (get_current_price (market_at 0 150) ''AAPL'' (empty_manager :: position manager)) = Some 150
   \<and> fst (get_current_price (market_at 299999999 175) ''AAPL''
        (snd (get_current_price (market_at 0 150) ''AAPL'' (empty_manager :: position manager))))
      = Some 150
   \<and> provider_log (snd (get_current_price (market_at 299999999 175) ''AAPL''
        (snd (get_current_price (market_at 0 150) ''AAPL'' (empty_manager :: position manager)))))
      = [''AAPL'']"
proof -
  have a: "price_cache cached_manager ''AAPL'' = Some 150
      \<and> cache_timestamp cached_manager ''AAPL'' = Some 1000
      \<and> clock (market_at 2000 175) - 1000 < five_minutes"
    by (simp add: cached_manager_def empty_manager_def market_at_def five_minutes_def)
  have b: "cache_hit (clock (market_at 0 150)) ''AAPL'' (empty_manager :: position manager) = None
      \<and> provider (market_at 0 150) ''AAPL'' = Close 150
      \<and> clock (market_at 299999999 175) - clock (market_at 0 150) < five_minutes"
    by (simp add: cache_hit_def empty_manager_def market_at_def five_minutes_def)
  note both = fresh_entry_served_from_cache
    [where s = cached_manager and tkr = "''AAPL''" and p = 150 and ts = 1000
       and w = "market_at 2000 175" and ?w1.0 = "market_at 0 150" and q = 150
       and ?s0.0 = "empty_manager :: position manager"
       and ?w2.0 = "market_at 299999999 175"]
  have c: "provider_log (empty_manager :: position manager) = []"
    by (simp add: empty_manager_def)
  have d: "provider_log (empty_manager :: position manager) @ [''AAPL''] = [''AAPL'']"
    by (simp add: c)
  from both [THEN conjunct1, THEN mp, OF a] both [THEN conjunct2, THEN mp, OF b]
  show ?thesis unfolding d by blast
qed

subsection \<open>Adding a position\<close>

lemma strip_example: "strip '' Nothing '' = ''Nothing''"
  by (simp add: strip_def is_space_def)

lemma form_unknown_closed:
  "dialog_closed (Some form_unknown) =
     Some \<lparr>dr_description = ''Nothing'', dr_ticker = ''ZZZZ'', dr_quantity = 1,
           dr_purchase_price = 10, dr_fees = 0\<rparr>"
  by (simp add: dialog_closed_def ok_clicked_def form_unknown_def strip_def is_space_def
      upper_def upper_char_def)

text \<open>
  Claim C4. When the price of the ticker of an add request does not resolve (the call of
  \<open>get_current_price\<close> on the upper-cased ticker returns \<open>None\<close>), \<open>add_position\<close> answers
  failure, and the list of positions, the file and both cache maps are what they were
  before: nothing is appended and nothing is written. The same holds for the desktop
  edition's add, which shows the error box.
\<close>

theorem unresolvable_add_rejected:
  "(fst (get_current_price w (upper (pd_ticker pd)) s) = None
      \<longrightarrow> fst (add_position w stamp pd s) = Inr (False, could_not_fetch (pd_ticker pd))
        \<and> portfolio (snd (add_position w stamp pd s)) = portfolio s
        \<and> data_file (snd (add_position w stamp pd s)) = data_file s
        \<and> price_cache (snd (add_position w stamp pd s)) = price_cache s
        \<and> cache_timestamp (snd (add_position w stamp pd s)) = cache_timestamp s)
   \<and> (dialog_closed attempt = Some r \<and> fst (get_current_price w (upper (dr_ticker r)) t) = None
      \<longrightarrow> fst (tk_add_position w stamp env attempt t)
            = ShowError (could_not_fetch_verify (upper (dr_ticker r)))
        \<and> portfolio (snd (tk_add_position w stamp env attempt t)) = portfolio t
        \<and> data_file (snd (tk_add_position w stamp env attempt t)) = data_file t
        \<and> price_cache (snd (tk_add_position w stamp env attempt t)) = price_cache t
        \<and> cache_timestamp (snd (tk_add_position w stamp env attempt t)) = cache_timestamp t)"
proof (intro conjI impI)
  assume h: "fst (get_current_price w (upper (pd_ticker pd)) s) = None"
  let ?s1 = "s\<lparr>provider_log := provider_log s @ [upper (pd_ticker pd)]\<rparr>"
  from h have g: "get_current_price w (upper (pd_ticker pd)) s = (None, ?s1)"
    using get_current_price_None [OF h] by (simp add: prod_eq_iff)
  then have a: "add_position w stamp pd s = (Inr (False, could_not_fetch (pd_ticker pd)), ?s1)"
    by (simp add: add_position_def)
  show "fst (add_position w stamp pd s) = Inr (False, could_not_fetch (pd_ticker pd))"
    and "portfolio (snd (add_position w stamp pd s)) = portfolio s"
    and "data_file (snd (add_position w stamp pd s)) = data_file s"
    and "price_cache (snd (add_position w stamp pd s)) = price_cache s"
    and "cache_timestamp (snd (add_position w stamp pd s)) = cache_timestamp s"
    by (simp_all add: a)
next
  assume h: "dialog_closed attempt = Some r \<and> fst (get_current_price w (upper (dr_ticker r)) t) = None"
  let ?t1 = "t\<lparr>provider_log := provider_log t @ [upper (dr_ticker r)]\<rparr>"
  from h have g: "get_current_price w (upper (dr_ticker r)) t = (None, ?t1)"
    using get_current_price_None [of w "upper (dr_ticker r)" t] by (simp add: prod_eq_iff)
  with h have a: "tk_add_position w stamp env attempt t
      = (ShowError (could_not_fetch_verify (upper (dr_ticker r))), ?t1)"
    by (simp add: tk_add_position_def Let_def)
  show "fst (tk_add_position w stamp env attempt t)
            = ShowError (could_not_fetch_verify (upper (dr_ticker r)))"
    and "portfolio (snd (tk_add_position w stamp env attempt t)) = portfolio t"
    and "data_file (snd (tk_add_position w stamp env attempt t)) = data_file t"
    and "price_cache (snd (tk_add_position w stamp env attempt t)) = price_cache t"
    and "cache_timestamp (snd (tk_add_position w stamp env attempt t)) = cache_timestamp t"
    by (simp_all add: a)
qed

theorem unresolvable_add_rejected_witness:
  "fst (add_position market_down 5 request_unknown empty_manager)
      = Inr (False, could_not_fetch ''zzzz'')
   \<and> portfolio (snd (add_position market_down 5 request_unknown empty_manager)) = []
   \<and> data_file (snd (add_position market_down 5 request_unknown empty_manager)) = []
   \<and> fst (tk_add_position market_down 5 (\<lambda>i. market_down) (Some form_unknown) empty_manager)
      = ShowError (could_not_fetch_verify ''ZZZZ'')
   \<and> portfolio (snd (tk_add_position market_down 5 (\<lambda>i. market_down) (Some form_unknown)
        empty_manager)) = []
   \<and> data_file (snd (tk_add_position market_down 5 (\<lambda>i. market_down) (Some form_unknown)
        empty_manager)) = []"
proof -
  let ?r = "\<lparr>dr_description = ''Nothing'', dr_ticker = ''ZZZZ'', dr_quantity = 1,
           dr_purchase_price = 10, dr_fees = 0\<rparr>"
  have a: "fst (get_current_price market_down (upper (pd_ticker request_unknown))
             (empty_manager :: position manager)) = None"
    by (simp add: get_current_price_def cache_hit_def empty_manager_def market_down_def)
  have b: "dialog_closed (Some form_unknown) = Some ?r
      \<and> fst (get_current_price market_down (upper (dr_ticker ?r))
             (empty_manager :: tk_position manager)) = None"
    by (simp add: form_unknown_closed get_current_price_def cache_hit_def empty_manager_def
        market_down_def)
  note both = unresolvable_add_rejected
    [where w = market_down and pd = request_unknown and s = empty_manager and stamp = 5
       and attempt = "Some form_unknown" and r = ?r and t = empty_manager
       and env = "\<lambda>i. market_down"]
  have c: "pd_ticker request_unknown = ''zzzz''" "upper (dr_ticker ?r) = ''ZZZZ''"
    "portfolio (empty_manager :: position manager) = []"
    "data_file (empty_manager :: position manager) = []"
    "portfolio (empty_manager :: tk_position manager) = []"
    "data_file (empty_manager :: tk_position manager) = []"
    by (simp_all add: request_unknown_def upper_def upper_char_def empty_manager_def)
  from both [THEN conjunct1, THEN mp, OF a] both [THEN conjunct2, THEN mp, OF b]
  show ?thesis unfolding c by blast
qed


subsection \<open>Editing a position\<close>

lemma edit_loop_split:
  "\<forall>q\<in>set before. pos_id q \<noteq> position_id \<Longrightarrow> pos_id position = position_id \<Longrightarrow>
   edit_loop w position_id pd i (before @ position # after) s
     = edit_body w pd (i + length before) position s"
  by (induction before arbitrary: i) simp_all

lemma edit_position_split:
  "portfolio s = before @ position # after \<Longrightarrow>
   \<forall>q\<in>set before. pos_id q \<noteq> position_id \<Longrightarrow> pos_id position = position_id \<Longrightarrow>
   edit_position w position_id pd s = edit_body w pd (length before) position s"
  by (simp add: edit_position_def edit_loop_split)

lemma edit_body_rejected:
  assumes "upper (pd_ticker pd) \<noteq> ticker position"
    and "fst (get_current_price w (upper (pd_ticker pd)) s) = None"
  shows "edit_body w pd i position s
     = (Inr (False, could_not_fetch (upper (pd_ticker pd))),
        s\<lparr>provider_log := provider_log s @ [upper (pd_ticker pd)]\<rparr>)"
proof -
  from assms(2) have "get_current_price w (upper (pd_ticker pd)) s
      = (None, s\<lparr>provider_log := provider_log s @ [upper (pd_ticker pd)]\<rparr>)"
    using get_current_price_None [of w "upper (pd_ticker pd)" s] by (simp add: prod_eq_iff)
  with assms(1) show ?thesis
    by (simp add: edit_body_def Let_def)
qed

lemma edit_body_same_ticker:
  assumes "upper (pd_ticker pd) = ticker position"
    and "to_float (pd_quantity pd) = Some q" "to_float (pd_purchase_price pd) = Some pp"
    and "to_float (pd_fees pd) = Some f"
  shows "edit_body w pd i position s
     = (Inr (True, ''Position updated successfully''),
        save_data (s\<lparr>portfolio := (portfolio s)
          [i := position\<lparr>description := pd_description pd, ticker := upper (pd_ticker pd),
                quantity := q, purchase_price := pp, fees := f\<rparr>]\<rparr>))"
  using assms by (simp add: edit_body_def Let_def)

lemma tk_edit_rejected:
  assumes "index < length (portfolio t)" "dialog_closed attempt = Some r"
    and "fst (get_current_price w (upper (dr_ticker r)) t) = None"
  shows "tk_edit_position w stamp env (Some index) attempt t
     = (ShowError (could_not_fetch_verify (upper (dr_ticker r))),
        t\<lparr>provider_log := provider_log t @ [upper (dr_ticker r)]\<rparr>)"
proof -
  from assms(3) have "get_current_price w (upper (dr_ticker r)) t
      = (None, t\<lparr>provider_log := provider_log t @ [upper (dr_ticker r)]\<rparr>)"
    using get_current_price_None [of w "upper (dr_ticker r)" t] by (simp add: prod_eq_iff)
  with assms(1,2) show ?thesis
    by (simp add: tk_edit_position_def Let_def)
qed

lemma two_positions_split:
  "portfolio two_positions = [acme] @ bolt # []"
  "\<forall>q\<in>set [acme]. pos_id q \<noteq> 2"
  "pos_id bolt = 2"
  by (simp_all add: two_positions_def acme_def bolt_def)

lemma acme_price_down:
  "fst (get_current_price market_down (upper (pd_ticker request_more_acme)) two_positions) = None"
  by (simp add: get_current_price_def cache_hit_def two_positions_def empty_manager_def
      market_down_def)

lemma edit_more_acme:
  "edit_position market_down 1 request_more_acme two_positions
     = (Inr (True, ''Position updated successfully''),
        save_data (two_positions\<lparr>portfolio := [acme\<lparr>quantity := 2\<rparr>, bolt]\<rparr>))"
  by (simp add: edit_position_def edit_body_def two_positions_def
      empty_manager_def acme_def bolt_def request_more_acme_def upper_def upper_char_def
      save_data_def Let_def)

text \<open>
  Claim C7, as stated, fails on the web edition: the price of the submitted ticker does
  not resolve (the provider is down and nothing is cached), yet the edit of position 1,
  which keeps its ticker, succeeds and changes the stored quantity from 1 to 2.
\<close>

theorem edit_unvalidated_counterexample:
  "fst (get_current_price market_down (upper (pd_ticker request_more_acme)) two_positions) = None
   \<and> fst (edit_position market_down 1 request_more_acme two_positions)
       = Inr (True, ''Position updated successfully'')
   \<and> map quantity (portfolio two_positions) = [1, 3]
   \<and> map quantity (portfolio (snd (edit_position market_down 1 request_more_acme two_positions)))
       = [2, 3]"
proof -
  have "map quantity (portfolio two_positions) = [1, 3]"
    by (simp add: two_positions_def acme_def bolt_def)
  moreover have "map quantity (portfolio (snd (edit_position market_down 1 request_more_acme
      two_positions))) = [2, 3]"
    by (simp add: edit_more_acme save_data_def acme_def bolt_def)
  moreover have "fst (edit_position market_down 1 request_more_acme two_positions)
       = Inr (True, ''Position updated successfully'')"
    by (simp add: edit_more_acme)
  ultimately show ?thesis
    using acme_price_down by blast
qed


text \<open>
  Claim C7, amended. The web edition validates the ticker only when it changes: when the
  submitted ticker, upper-cased, differs from the ticker of the matched position and its
  price does not resolve, \<open>edit_position\<close> answers failure and neither the positions nor
  the file change. An edit that keeps the ticker is made without any price fetch (the log
  of provider queries is unchanged). The desktop edition fetches the price on every
  edit and rejects the edit whenever it does not resolve.
\<close>

theorem edit_validates_changed_ticker:
  "(portfolio s = before @ position # after \<and> (\<forall>q\<in>set before. pos_id q \<noteq> position_id)
      \<and> pos_id position = position_id
      \<and> upper (pd_ticker pd) \<noteq> ticker position
      \<and> fst (get_current_price w (upper (pd_ticker pd)) s) = None
     \<longrightarrow> fst (edit_position w position_id pd s)
            = Inr (False, could_not_fetch (upper (pd_ticker pd)))
       \<and> portfolio (snd (edit_position w position_id pd s)) = portfolio s
       \<and> data_file (snd (edit_position w position_id pd s)) = data_file s)
   \<and> (portfolio s = before @ position # after \<and> (\<forall>q\<in>set before. pos_id q \<noteq> position_id)
      \<and> pos_id position = position_id
      \<and> upper (pd_ticker pd) = ticker position
      \<and> to_float (pd_quantity pd) = Some q \<and> to_float (pd_purchase_price pd) = Some pp
      \<and> to_float (pd_fees pd) = Some f
     \<longrightarrow> fst (edit_position w position_id pd s) = Inr (True, ''Position updated successfully'')
       \<and> provider_log (snd (edit_position w position_id pd s)) = provider_log s)
   \<and> (index < length (portfolio t) \<and> dialog_closed attempt = Some r
      \<and> fst (get_current_price w (upper (dr_ticker r)) t) = None
     \<longrightarrow> fst (tk_edit_position w stamp env (Some index) attempt t)
            = ShowError (could_not_fetch_verify (upper (dr_ticker r)))
       \<and> portfolio (snd (tk_edit_position w stamp env (Some index) attempt t)) = portfolio t
       \<and> data_file (snd (tk_edit_position w stamp env (Some index) attempt t)) = data_file t)"
proof (intro conjI impI)
  assume h: "portfolio s = before @ position # after \<and> (\<forall>q\<in>set before. pos_id q \<noteq> position_id)
      \<and> pos_id position = position_id
      \<and> upper (pd_ticker pd) \<noteq> ticker position
      \<and> fst (get_current_price w (upper (pd_ticker pd)) s) = None"
  then have "edit_position w position_id pd s
     = (Inr (False, could_not_fetch (upper (pd_ticker pd))),
        s\<lparr>provider_log := provider_log s @ [upper (pd_ticker pd)]\<rparr>)"
    by (simp add: edit_position_split edit_body_rejected)
  then show "fst (edit_position w position_id pd s)
            = Inr (False, could_not_fetch (upper (pd_ticker pd)))"
    and "portfolio (snd (edit_position w position_id pd s)) = portfolio s"
    and "data_file (snd (edit_position w position_id pd s)) = data_file s"
    by simp_all
next
  assume h: "portfolio s = before @ position # after \<and> (\<forall>q\<in>set before. pos_id q \<noteq> position_id)
      \<and> pos_id position = position_id
      \<and> upper (pd_ticker pd) = ticker position
      \<and> to_float (pd_quantity pd) = Some q \<and> to_float (pd_purchase_price pd) = Some pp
      \<and> to_float (pd_fees pd) = Some f"
  then have "edit_position w position_id pd s
     = (Inr (True, ''Position updated successfully''),
        save_data (s\<lparr>portfolio := (portfolio s)
          [length before := position\<lparr>description := pd_description pd,
                ticker := upper (pd_ticker pd),
                quantity := q, purchase_price := pp, fees := f\<rparr>]\<rparr>))"
    by (simp add: edit_position_split edit_body_same_ticker)
  then show "fst (edit_position w position_id pd s) = Inr (True, ''Position updated successfully'')"
    and "provider_log (snd (edit_position w position_id pd s)) = provider_log s"
    by (simp_all add: save_data_def)
next
  assume h: "index < length (portfolio t) \<and> dialog_closed attempt = Some r
      \<and> fst (get_current_price w (upper (dr_ticker r)) t) = None"
  then have "tk_edit_position w stamp env (Some index) attempt t
     = (ShowError (could_not_fetch_verify (upper (dr_ticker r))),
        t\<lparr>provider_log := provider_log t @ [upper (dr_ticker r)]\<rparr>)"
    by (simp add: tk_edit_rejected)
  then show "fst (tk_edit_position w stamp env (Some index) attempt t)
            = ShowError (could_not_fetch_verify (upper (dr_ticker r)))"
    and "portfolio (snd (tk_edit_position w stamp env (Some index) attempt t)) = portfolio t"
    and "data_file (snd (tk_edit_position w stamp env (Some index) attempt t)) = data_file t"
    by simp_all
qed

theorem edit_validates_changed_ticker_witness:
  "fst (edit_position market_down 2 request_unknown two_positions)
       = Inr (False, could_not_fetch (upper (pd_ticker request_unknown)))
   \<and> portfolio (snd (edit_position market_down 2 request_unknown two_positions))
       = portfolio two_positions
   \<and> data_file (snd (edit_position market_down 2 request_unknown two_positions))
       = data_file two_positions
   \<and> fst (edit_position market_down 2 request_more_bolt two_positions)
       = Inr (True, ''Position updated successfully'')
   \<and> provider_log (snd (edit_position market_down 2 request_more_bolt two_positions))
       = provider_log two_positions
   \<and> fst (tk_edit_position market_down 5 (\<lambda>i. market_down) (Some 0) (Some form_unknown)
        tk_one_position) = ShowError (could_not_fetch_verify ''ZZZZ'')
   \<and> portfolio (snd (tk_edit_position market_down 5 (\<lambda>i. market_down) (Some 0)
        (Some form_unknown) tk_one_position)) = portfolio tk_one_position
   \<and> data_file (snd (tk_edit_position market_down 5 (\<lambda>i. market_down) (Some 0)
        (Some form_unknown) tk_one_position)) = data_file tk_one_position"
proof -
  let ?r = "\<lparr>dr_description = ''Nothing'', dr_ticker = ''ZZZZ'', dr_quantity = 1,
           dr_purchase_price = 10, dr_fees = 0\<rparr>"
  have a: "portfolio two_positions = [acme] @ bolt # [] \<and> (\<forall>q\<in>set [acme]. pos_id q \<noteq> 2)
      \<and> pos_id bolt = 2
      \<and> upper (pd_ticker request_unknown) \<noteq> ticker bolt
      \<and> fst (get_current_price market_down (upper (pd_ticker request_unknown)) two_positions) = None"
    by (simp add: two_positions_split request_unknown_def bolt_def upper_def upper_char_def
        get_current_price_def cache_hit_def two_positions_def empty_manager_def market_down_def)
  have b: "portfolio two_positions = [acme] @ bolt # [] \<and> (\<forall>q\<in>set [acme]. pos_id q \<noteq> 2)
      \<and> pos_id bolt = 2
      \<and> upper (pd_ticker request_more_bolt) = ticker bolt
      \<and> to_float (pd_quantity request_more_bolt) = Some 4
      \<and> to_float (pd_purchase_price request_more_bolt) = Some 20
      \<and> to_float (pd_fees request_more_bolt) = Some 1"
    by (simp add: two_positions_split request_more_bolt_def bolt_def upper_def upper_char_def)
  have c: "0 < length (portfolio tk_one_position) \<and> dialog_closed (Some form_unknown) = Some ?r
      \<and> fst (get_current_price market_down (upper (dr_ticker ?r)) tk_one_position) = None"
    by (simp add: form_unknown_closed tk_one_position_def empty_manager_def
        get_current_price_def cache_hit_def market_down_def)
  have d: "upper (dr_ticker ?r) = ''ZZZZ''"
    by (simp add: upper_def upper_char_def)
  note first = edit_validates_changed_ticker
    [where s = two_positions and before = "[acme]" and position = bolt and after = "[]"
       and position_id = 2 and pd = request_unknown and w = market_down,
     THEN conjunct1, THEN mp, OF a]
  note second = edit_validates_changed_ticker
    [where s = two_positions and before = "[acme]" and position = bolt and after = "[]"
       and position_id = 2 and pd = request_more_bolt and w = market_down
       and q = 4 and pp = 20 and f = 1,
     THEN conjunct2, THEN conjunct1, THEN mp, OF b]
  note third = edit_validates_changed_ticker
    [where t = tk_one_position and index = 0 and attempt = "Some form_unknown" and r = ?r
       and w = market_down and stamp = 5 and env = "\<lambda>i. market_down",
     THEN conjunct2, THEN conjunct2, THEN mp, OF c]
  from first second third show ?thesis
    unfolding d by blast
qed


lemma edit_body_outcome:
  "(\<exists>q pp f. to_float (pd_quantity pd) = Some q \<and> to_float (pd_purchase_price pd) = Some pp
        \<and> to_float (pd_fees pd) = Some f
        \<and> fst (edit_body w pd i position s) = Inr (True, ''Position updated successfully'')
        \<and> portfolio (snd (edit_body w pd i position s))
            = (portfolio s)[i := position\<lparr>description := pd_description pd,
                 ticker := upper (pd_ticker pd), quantity := q, purchase_price := pp,
                 fees := f\<rparr>])
   \<or> ((\<forall>m. fst (edit_body w pd i position s) \<noteq> Inr (True, m))
        \<and> portfolio (snd (edit_body w pd i position s)) = portfolio s)"
proof (cases "upper (pd_ticker pd) \<noteq> ticker position
    \<and> fst (get_current_price w (upper (pd_ticker pd)) s) = None")
  case True
  then show ?thesis
    by (simp add: edit_body_rejected)
next
  case False
  obtain c s1 where g: "get_current_price w (upper (pd_ticker pd)) s = (c, s1)"
    by (cases "get_current_price w (upper (pd_ticker pd)) s")
  have p1: "portfolio s1 = portfolio s"
    using get_current_price_portfolio [of w "upper (pd_ticker pd)" s] by (simp add: g)
  from False g p1 show ?thesis
    by (cases "to_float (pd_quantity pd)"; cases "to_float (pd_purchase_price pd)";
        cases "to_float (pd_fees pd)"; cases c)
       (simp_all add: edit_body_def Let_def save_data_def)
qed

text \<open>
  Claim C10. Let the position matched by an edit be the first one whose id equals the
  requested id. After \<open>edit_position\<close> the list of positions is the old list with that one
  position replaced: the positions before and after it are unchanged, the replacement
  keeps the id and the date of the matched position, and it is the matched position with
  its description, ticker, quantity, purchase price and fees set from the request when
  the edit succeeds, and the matched position itself when it does not.
\<close>

theorem edit_position_frame:
  assumes split: "portfolio s = before @ position # after"
    and first: "\<forall>q\<in>set before. pos_id q \<noteq> position_id"
    and matched: "pos_id position = position_id"
  shows "\<exists>position'.
       portfolio (snd (edit_position w position_id pd s)) = before @ position' # after
     \<and> pos_id position' = pos_id position
     \<and> date_added position' = date_added position
     \<and> (case fst (edit_position w position_id pd s) of
          Inr (True, m) \<Rightarrow>
            (\<exists>q pp f. to_float (pd_quantity pd) = Some q
               \<and> to_float (pd_purchase_price pd) = Some pp
               \<and> to_float (pd_fees pd) = Some f
               \<and> position' = position\<lparr>description := pd_description pd,
                    ticker := upper (pd_ticker pd), quantity := q, purchase_price := pp,
                    fees := f\<rparr>)
        | _ \<Rightarrow> position' = position)"
proof -
  have e: "edit_position w position_id pd s = edit_body w pd (length before) position s"
    using split first matched by (rule edit_position_split)
  from edit_body_outcome [of pd w "length before" position s]
  show ?thesis
  proof (elim disjE exE conjE)
    fix q pp f
    assume "to_float (pd_quantity pd) = Some q" "to_float (pd_purchase_price pd) = Some pp"
      "to_float (pd_fees pd) = Some f"
      "fst (edit_body w pd (length before) position s) = Inr (True, ''Position updated successfully'')"
      "portfolio (snd (edit_body w pd (length before) position s))
            = (portfolio s)[length before := position\<lparr>description := pd_description pd,
                 ticker := upper (pd_ticker pd), quantity := q, purchase_price := pp,
                 fees := f\<rparr>]"
    then show ?thesis
      by (simp add: e split)
  next
    assume no: "\<forall>m. fst (edit_body w pd (length before) position s) \<noteq> Inr (True, m)"
      and same: "portfolio (snd (edit_body w pd (length before) position s)) = portfolio s"
    from no have "(case fst (edit_body w pd (length before) position s) of
          Inr (True, m) \<Rightarrow> False | _ \<Rightarrow> True)"
      by (auto split: sum.splits prod.splits bool.splits)
    then have "(case fst (edit_body w pd (length before) position s) of
          Inr (True, m) \<Rightarrow>
            (\<exists>q pp f. to_float (pd_quantity pd) = Some q
               \<and> to_float (pd_purchase_price pd) = Some pp
               \<and> to_float (pd_fees pd) = Some f
               \<and> position = position\<lparr>description := pd_description pd,
                    ticker := upper (pd_ticker pd), quantity := q, purchase_price := pp,
                    fees := f\<rparr>)
        | _ \<Rightarrow> position = position)"
      by (auto split: sum.splits prod.splits bool.splits)
    with same show ?thesis
      by (intro exI [of _ position]) (simp add: e split)
  qed
qed


theorem edit_position_frame_witness:
  "\<exists>position'.
       portfolio (snd (edit_position market_down 2 request_more_bolt two_positions))
         = [acme] @ position' # []
     \<and> pos_id position' = pos_id bolt
     \<and> date_added position' = date_added bolt
     \<and> (case fst (edit_position market_down 2 request_more_bolt two_positions) of
          Inr (True, m) \<Rightarrow>
            (\<exists>q pp f. to_float (pd_quantity request_more_bolt) = Some q
               \<and> to_float (pd_purchase_price request_more_bolt) = Some pp
               \<and> to_float (pd_fees request_more_bolt) = Some f
               \<and> position' = bolt\<lparr>description := pd_description request_more_bolt,
                    ticker := upper (pd_ticker request_more_bolt), quantity := q,
                    purchase_price := pp, fees := f\<rparr>)
        | _ \<Rightarrow> position' = bolt)"
  by (rule edit_position_frame [OF two_positions_split])

subsection \<open>Valuation\<close>

lemma price_results_length [simp]:
  "length (price_results env i ts s) = length ts"
  by (induction ts arbitrary: i s) (simp_all split: prod.splits)

lemma portfolio_loop_fst:
  "fst (portfolio_loop env i ps rows ai ac s) =
     (rows @ map2 position_row ps (price_results env i (map ticker ps) s),
      ai + (\<Sum>p\<leftarrow>ps. quantity p * purchase_price p + fees p),
      ac + (\<Sum>(p, c)\<leftarrow>zip ps (price_results env i (map ticker ps) s).
              case c of Some cp \<Rightarrow> quantity p * cp | None \<Rightarrow> 0))"
proof (induction ps arbitrary: i rows ai ac s)
  case Nil
  show ?case by simp
next
  case (Cons p ps)
  obtain c s' where g: "get_current_price (env i) (ticker p) s = (c, s')"
    by (cases "get_current_price (env i) (ticker p) s")
  show ?case
    by (cases c) (simp_all add: g Cons.IH Let_def algebra_simps)
qed

lemma display_loop_fst:
  "fst (display_loop env i ps rows ai ac s) =
     (rows @ map2 tk_position_row ps (price_results env i (map tk_ticker ps) s),
      ai + (\<Sum>p\<leftarrow>ps. tk_quantity p * tk_purchase_price p + tk_fees p),
      ac + (\<Sum>(p, c)\<leftarrow>zip ps (price_results env i (map tk_ticker ps) s).
              case c of Some cp \<Rightarrow> tk_quantity p * cp | None \<Rightarrow> 0))"
proof (induction ps arbitrary: i rows ai ac s)
  case Nil
  show ?case by simp
next
  case (Cons p ps)
  obtain c s' where g: "get_current_price (env i) (tk_ticker p) s = (c, s')"
    by (cases "get_current_price (env i) (tk_ticker p) s")
  show ?case
    by (cases c) (simp_all add: g Cons.IH Let_def algebra_simps)
qed

lemma get_portfolio_data_fst:
  "fst (get_portfolio_data env s) =
     (case fst (portfolio_loop env 0 (portfolio s) [] 0 0 s) of
        (rows, ai, ac) \<Rightarrow>
          (rows,
           \<lparr>total_investment = ai, total_current_value = ac,
            total_pl = (if ac > 0 then ac - ai else 0),
            total_pl_percent =
              (if ai > 0 then ((if ac > 0 then ac - ai else 0) / ai) * 100 else 0)\<rparr>))"
  by (simp add: get_portfolio_data_def Let_def split: prod.splits)

lemma update_display_fst:
  "fst (update_display env s) =
     (case fst (display_loop env 0 (portfolio s) [] 0 0 s) of
        (rows, ai, ac) \<Rightarrow>
          \<lparr>tk_rows = rows, tk_total_investment = ai, tk_total_current_value = ac,
           tk_total_pl = ac - ai,
           tk_total_pl_percent = (if ai > 0 then ((ac - ai) / ai) * 100 else 0)\<rparr>)"
  by (simp add: update_display_def Let_def split: prod.splits)

text \<open>
  Claim C2. In the summary of \<open>get_portfolio_data\<close>, \<open>total_investment\<close> is the sum over
  all positions of quantity times purchase price plus fees, and \<open>total_current_value\<close> is
  the sum of quantity times current price over the positions whose price resolved during
  the loop; a position whose price did not resolve adds its cost to the first sum and
  nothing to the second. The rows are the positions valued at exactly these prices. The
  display of the desktop edition computes the same two sums.
\<close>

theorem portfolio_totals:
  "total_investment (snd (fst (get_portfolio_data env s)))
     = (\<Sum>p\<leftarrow>portfolio s. quantity p * purchase_price p + fees p)
   \<and> total_current_value (snd (fst (get_portfolio_data env s)))
     = (\<Sum>(p, c)\<leftarrow>zip (portfolio s) (price_results env 0 (map ticker (portfolio s)) s).
          case c of Some cp \<Rightarrow> quantity p * cp | None \<Rightarrow> 0)
   \<and> fst (fst (get_portfolio_data env s))
     = map2 position_row (portfolio s) (price_results env 0 (map ticker (portfolio s)) s)
   \<and> tk_total_investment (fst (update_display env t))
     = (\<Sum>p\<leftarrow>portfolio t. tk_quantity p * tk_purchase_price p + tk_fees p)
   \<and> tk_total_current_value (fst (update_display env t))
     = (\<Sum>(p, c)\<leftarrow>zip (portfolio t) (price_results env 0 (map tk_ticker (portfolio t)) t).
          case c of Some cp \<Rightarrow> tk_quantity p * cp | None \<Rightarrow> 0)
   \<and> tk_rows (fst (update_display env t))
     = map2 tk_position_row (portfolio t) (price_results env 0 (map tk_ticker (portfolio t)) t)"
  by (simp add: get_portfolio_data_fst update_display_fst portfolio_loop_fst display_loop_fst)

lemma mixed_market_example:
  "snd (fst (get_portfolio_data (\<lambda>i. market_only_acme) two_positions))
     = \<lparr>total_investment = 170, total_current_value = 120, total_pl = - 50,
        total_pl_percent = - 50 / 170 * 100\<rparr>
   \<and> map row_current_price (fst (fst (get_portfolio_data (\<lambda>i. market_only_acme) two_positions)))
     = [Some 120, None]"
  by (simp add: get_portfolio_data_fst portfolio_loop_fst two_positions_def empty_manager_def
      acme_def bolt_def market_only_acme_def get_current_price_def cache_hit_def
      position_row_def)

lemma two_positions_down:
  "snd (fst (get_portfolio_data (\<lambda>i. market_down) two_positions))
     = \<lparr>total_investment = 170, total_current_value = 0, total_pl = 0, total_pl_percent = 0\<rparr>"
  by (simp add: get_portfolio_data_fst portfolio_loop_fst two_positions_def empty_manager_def
      acme_def bolt_def market_down_def get_current_price_def cache_hit_def)

text \<open>
  Claim C1, as stated, fails on the web edition: with two positions costing 170 in total
  and no price resolving, the current value is 0 and \<open>total_pl\<close> is 0, not 0 - 170.
\<close>

theorem total_pl_counterexample:
  "(let sm = snd (fst (get_portfolio_data (\<lambda>i. market_down) two_positions)) in
      total_investment sm = 170 \<and> total_current_value sm = 0 \<and> total_pl sm = 0
    \<and> total_pl sm \<noteq> total_current_value sm - total_investment sm)"
  by (simp add: two_positions_down)


text \<open>
  Claim C1, amended. In the summary of \<open>get_portfolio_data\<close>, \<open>total_pl\<close> is
  \<open>total_current_value\<close> minus \<open>total_investment\<close> when \<open>total_current_value\<close> is positive
  and 0 otherwise; \<open>total_pl_percent\<close> is \<open>total_pl\<close> over \<open>total_investment\<close> times 100 when
  \<open>total_investment\<close> is positive and 0 otherwise. The desktop edition has no guard on the
  difference: its total is always current value minus investment.
\<close>

theorem total_pl_guarded:
  "(let sm = snd (fst (get_portfolio_data env s)) in
      total_pl sm
        = (if total_current_value sm > 0 then total_current_value sm - total_investment sm
           else 0)
    \<and> total_pl_percent sm
        = (if total_investment sm > 0 then (total_pl sm / total_investment sm) * 100 else 0))
   \<and> (let v = fst (update_display env t) in
      tk_total_pl v = tk_total_current_value v - tk_total_investment v
    \<and> tk_total_pl_percent v
        = (if tk_total_investment v > 0 then (tk_total_pl v / tk_total_investment v) * 100
           else 0))"
  by (simp add: get_portfolio_data_fst update_display_fst Let_def split: prod.splits)

lemma position_row_priced:
  "position_row p (Some cp) =
     \<lparr>row_id = pos_id p, row_description = description p, row_ticker = ticker p,
      row_quantity = quantity p, row_purchase_price = purchase_price p,
      row_total_cost = quantity p * purchase_price p + fees p,
      row_fees = fees p,
      row_current_price = Some cp,
      row_current_value = Some (quantity p * cp),
      row_pl = Some (quantity p * cp - (quantity p * purchase_price p + fees p)),
      row_pl_percent =
        Some (if quantity p * purchase_price p + fees p > 0
              then ((quantity p * cp - (quantity p * purchase_price p + fees p))
                     / (quantity p * purchase_price p + fees p)) * 100
              else 0),
      row_date_added = date_added p\<rparr>"
  by (simp add: position_row_def Let_def)

lemma tk_position_row_priced:
  "tk_position_row p (Some cp) =
     \<lparr>tr_description = tk_description p, tr_ticker = tk_ticker p,
      tr_quantity = tk_quantity p, tr_purchase_price = tk_purchase_price p,
      tr_total_cost = tk_quantity p * tk_purchase_price p + tk_fees p,
      tr_fees = tk_fees p,
      tr_current_price = Some cp,
      tr_current_value = Some (tk_quantity p * cp),
      tr_pl = Some (tk_quantity p * cp - (tk_quantity p * tk_purchase_price p + tk_fees p)),
      tr_pl_percent =
        Some (if tk_quantity p * tk_purchase_price p + tk_fees p > 0
              then ((tk_quantity p * cp - (tk_quantity p * tk_purchase_price p + tk_fees p))
                     / (tk_quantity p * tk_purchase_price p + tk_fees p)) * 100
              else 0)\<rparr>"
  by (simp add: tk_position_row_def Let_def)

lemma short_fee_row:
  "fst (fst (get_portfolio_data (\<lambda>i. market_at 0 5) (empty_manager\<lparr>portfolio := [short_fee]\<rparr>)))
     = [position_row short_fee (Some 5)]"
  by (simp add: get_portfolio_data_fst portfolio_loop_fst empty_manager_def short_fee_def
      market_at_def get_current_price_def cache_hit_def)

text \<open>
  Claim C3, as stated, fails: a position of quantity 1 bought at 1 with fees of -3 has a
  total cost of -2, which is not zero; at a price of 5 its profit is 7, and its
  \<open>pl_percent\<close> is 0, not 7 / (-2) * 100.
\<close>

theorem pl_percent_counterexample:
  "(let r = hd (fst (fst (get_portfolio_data (\<lambda>i. market_at 0 5)
                (empty_manager\<lparr>portfolio := [short_fee]\<rparr>)))) in
      row_current_price r = Some 5 \<and> row_total_cost r = - 2 \<and> row_pl r = Some 7
    \<and> row_pl_percent r = Some 0
    \<and> row_pl_percent r \<noteq> Some ((7 / row_total_cost r) * 100))"
  unfolding short_fee_row by (simp add: position_row_priced short_fee_def)


text \<open>
  Claim C3, amended. For a position whose price resolved, the row holds the total cost
  (quantity times purchase price plus fees) and the profit (quantity times current price
  minus total cost); \<open>pl_percent\<close> is profit over total cost times 100 when the total cost
  is positive, and 0 when the total cost is zero or negative. Both editions compute it
  so.
\<close>

theorem pl_percent_positive_cost:
  "(let r = position_row p (Some cp) in
      row_total_cost r = quantity p * purchase_price p + fees p
    \<and> row_pl r = Some (quantity p * cp - row_total_cost r)
    \<and> (0 < row_total_cost r \<longrightarrow>
          row_pl_percent r = Some (((quantity p * cp - row_total_cost r) / row_total_cost r) * 100))
    \<and> (row_total_cost r \<le> 0 \<longrightarrow> row_pl_percent r = Some 0))
   \<and> (let r = tk_position_row k (Some ck) in
      tr_total_cost r = tk_quantity k * tk_purchase_price k + tk_fees k
    \<and> tr_pl r = Some (tk_quantity k * ck - tr_total_cost r)
    \<and> (0 < tr_total_cost r \<longrightarrow>
          tr_pl_percent r = Some (((tk_quantity k * ck - tr_total_cost r) / tr_total_cost r) * 100))
    \<and> (tr_total_cost r \<le> 0 \<longrightarrow> tr_pl_percent r = Some 0))"
  by (simp add: position_row_priced tk_position_row_priced Let_def)

theorem pl_percent_positive_cost_witness:
  "row_pl_percent (position_row acme (Some 132)) = Some 20
   \<and> row_pl_percent (position_row short_fee (Some 5)) = Some 0
   \<and> tr_pl_percent (tk_position_row tk_acme (Some 132)) = Some 20
   \<and> tr_pl_percent (tk_position_row (tk_acme\<lparr>tk_fees := - 100\<rparr>) (Some 132)) = Some 0"
proof -
  have a: "0 < row_total_cost (position_row acme (Some 132))"
    and b: "row_total_cost (position_row short_fee (Some 5)) \<le> 0"
    and c: "0 < tr_total_cost (tk_position_row tk_acme (Some 132))"
    and d: "tr_total_cost (tk_position_row (tk_acme\<lparr>tk_fees := - 100\<rparr>) (Some 132)) \<le> 0"
    by (simp_all add: position_row_priced tk_position_row_priced acme_def short_fee_def
        tk_acme_def)
  have e: "((quantity acme * 132 - row_total_cost (position_row acme (Some 132)))
            / row_total_cost (position_row acme (Some 132))) * 100 = 20"
    "((tk_quantity tk_acme * 132 - tr_total_cost (tk_position_row tk_acme (Some 132)))
            / tr_total_cost (tk_position_row tk_acme (Some 132))) * 100 = 20"
    by (simp_all add: position_row_priced tk_position_row_priced acme_def tk_acme_def)
  note one = pl_percent_positive_cost [where p = acme and cp = 132 and k = tk_acme and ck = 132,
      unfolded Let_def]
  note two = pl_percent_positive_cost
      [where p = short_fee and cp = 5 and k = "tk_acme\<lparr>tk_fees := - 100\<rparr>" and ck = 132,
       unfolded Let_def]
  from one a c two b d show ?thesis
    unfolding e by blast
qed


subsection \<open>Bounds on stored positions\<close>

text \<open>
  The dialog of the desktop edition stores nothing unless the quantity and the purchase
  price are positive and the fees are not negative.
\<close>

lemma ok_clicked_bounds:
  "ok_clicked form = Inr r \<Longrightarrow> 0 < dr_quantity r \<and> 0 < dr_purchase_price r \<and> 0 \<le> dr_fees r"
  by (auto simp: ok_clicked_def Let_def split: option.splits if_splits)

lemma odd_price:
  "get_current_price (market_at 0 50) ''ODD'' (empty_manager :: position manager)
     = (Some 50, empty_manager\<lparr>provider_log := [''ODD''], price_cache := [''ODD'' \<mapsto> 50],
          cache_timestamp := [''ODD'' \<mapsto> 0]\<rparr>)"
  by (simp add: get_current_price_def cache_hit_def empty_manager_def market_at_def)

text \<open>
  Claim C8. The web edition has no such check: \<open>add_position\<close> converts the three numbers
  with \<^verbatim>\<open>float\<close> and appends the position. A request with quantity -5, purchase price 0
  and fees -1, for a ticker whose price resolves, is answered with success and stored as
  it is, against the bounds of the claim.
\<close>

theorem add_position_stores_out_of_range:
  "fst (add_position (market_at 0 50) 7 request_out_of_range empty_manager)
     = Inr (True, ''Position added successfully'')
   \<and> portfolio (snd (add_position (market_at 0 50) 7 request_out_of_range empty_manager))
     = [\<lparr>pos_id = 1, description = ''Odd'', ticker = ''ODD'', quantity = - 5,
         purchase_price = 0, fees = - 1, date_added = 7\<rparr>]"
proof -
  have u: "upper (pd_ticker request_out_of_range) = ''ODD''"
    by (simp add: request_out_of_range_def upper_def upper_char_def)
  show ?thesis
    by (simp add: add_position_def u odd_price save_data_def Let_def)
       (simp add: request_out_of_range_def empty_manager_def save_data_def upper_def
          upper_char_def Let_def)
qed

subsection \<open>CSV export\<close>

text \<open>
  A position whose price did not resolve has \<^verbatim>\<open>N/A\<close> in its four computed cells.
\<close>

lemma export_row_unpriced:
  "drop 6 (export_row (position_row p None))
     = [Text ''N/A'', Text ''N/A'', Text ''N/A'', Text ''N/A'', Stamp (date_added p)]"
  by (simp add: export_row_def position_row_def value_or_na_def Let_def)

lemma flat_rows:
  "fst (fst (get_portfolio_data (\<lambda>i. market_at 0 10) (empty_manager\<lparr>portfolio := [flat]\<rparr>)))
     = [position_row flat (Some 10)]"
  by (simp add: get_portfolio_data_fst portfolio_loop_fst empty_manager_def flat_def
      market_at_def get_current_price_def cache_hit_def)

lemma export_data_fst:
  "fst (export_data env s) = csv_header # map export_row (fst (fst (get_portfolio_data env s)))"
  by (simp add: export_data_def split: prod.splits)

text \<open>
  Claim C9. The export of the web edition tests the truth value of each computed cell
  (\<^verbatim>\<open>position['pl'] if position['pl'] else 'N/A'\<close>), and \<^verbatim>\<open>0.0\<close> is false in Python. A
  position bought at 10 without fees and priced at 10 has a resolved price, a profit of
  exactly 0 and a percentage of 0; its P&L and P&L % cells are \<^verbatim>\<open>N/A\<close>, against the claim.
\<close>

theorem export_zero_pl_shown_as_na:
  "price_results (\<lambda>i. market_at 0 10) 0 [ticker flat] (empty_manager\<lparr>portfolio := [flat]\<rparr>)
     = [Some 10]
   \<and> fst (export_data (\<lambda>i. market_at 0 10) (empty_manager\<lparr>portfolio := [flat]\<rparr>))
     = [csv_header,
        [Text ''Flat'', Text ''FLAT'', Number 1, Number 10, Number 10, Number 0,
         Number 10, Number 10, Text ''N/A'', Text ''N/A'', Stamp 0]]"
proof -
  have "price_results (\<lambda>i. market_at 0 10) 0 [ticker flat] (empty_manager\<lparr>portfolio := [flat]\<rparr>)
     = [Some 10]"
    by (simp add: empty_manager_def flat_def market_at_def get_current_price_def cache_hit_def)
  moreover have "export_row (position_row flat (Some 10))
     = [Text ''Flat'', Text ''FLAT'', Number 1, Number 10, Number 10, Number 0,
         Number 10, Number 10, Text ''N/A'', Text ''N/A'', Stamp 0]"
    by (simp add: export_row_def position_row_priced value_or_na_def flat_def)
  ultimately show ?thesis
    by (simp add: export_data_fst flat_rows)
qed

text \<open>
  The export of the desktop edition tests the price only, and writes the same profit of 0
  as a number.
\<close>

lemma tk_export_row_zero_pl:
  "tk_export_row \<lparr>tk_description = ''Flat'', tk_ticker = ''FLAT'', tk_quantity = 1,
      tk_purchase_price = 10, tk_fees = 0, tk_date_added = Some 0\<rparr> (Some 10)
     = [Text ''Flat'', Text ''FLAT'', Number 1, Number 10, Number 10, Number 0,
        Number 10, Number 10, Number 0, Number 0]"
  by (simp add: tk_export_row_def Let_def)


end
